theory Spec2Isabelle
  imports Complex_Main
begin

section \<open>Survey Nest: a form builder and data collector\<close>

text \<open>
  The application keeps, per user, a table of projects. A project owns an ordered form
  (a list of questions) and a list of submitted records. Two flat files persist the
  state: a CSV table of credentials and a JSON document of all projects. The handlers
  of the Streamlit page mutate the project in place; here every handler takes the state
  it reads and returns the state it leaves.

  Strings are lists of 8-bit characters and the character classes below are the ASCII
  ones, so the model speaks about ASCII text. The spreadsheet, CSV and JSON libraries
  are not part of the repository: a table is modelled by the rows the program hands to
  the library, and what the library hands back is described where it is used.
\<close>

subsection \<open>Python strings\<close>

definition isspace :: "char \<Rightarrow> bool" where
  "isspace c = ((of_char c :: nat) \<in> {9, 10, 11, 12, 13, 28, 29, 30, 31, 32})"

definition isalnum :: "char \<Rightarrow> bool" where
  "isalnum c = (let n = (of_char c :: nat) in
     (48 \<le> n \<and> n \<le> 57) \<or> (65 \<le> n \<and> n \<le> 90) \<or> (97 \<le> n \<and> n \<le> 122))"

definition lower_char :: "char \<Rightarrow> char" where
  "lower_char c = (let n = (of_char c :: nat) in
     if 65 \<le> n \<and> n \<le> 90 then char_of (n + 32) else c)"

definition lower :: "string \<Rightarrow> string" where
  "lower s = map lower_char s"

definition strip :: "string \<Rightarrow> string" where
  "strip s = rev (dropWhile isspace (rev (dropWhile isspace s)))"

definition startswith :: "string \<Rightarrow> string \<Rightarrow> bool" where
  "startswith s p = (take (length p) s = p)"

text \<open>\<open>s.split(' ', 1)[1]\<close>, for a string that holds a space: what follows the first space.\<close>

definition after_first_space :: "string \<Rightarrow> string" where
  "after_first_space s = tl (dropWhile (\<lambda>c. c \<noteq> CHR '' '') s)"

text \<open>Decimal text of a number, as \<open>str\<close> and an f-string print a Python \<open>int\<close>.\<close>

fun str_nat :: "nat \<Rightarrow> string" where
  "str_nat n = (if n < 10 then [char_of (48 + n)]
                else str_nat (n div 10) @ [char_of (48 + n mod 10)])"

declare str_nat.simps [simp del]

definition str_int :: "int \<Rightarrow> string" where
  "str_int i = (if i < 0 then CHR ''-'' # str_nat (nat (- i)) else str_nat (nat i))"

subsection \<open>Data model\<close>

text \<open>
  A value of a submitted record: what the input widgets return. A number (Python
  \<open>int\<close> or a finite \<open>float\<close>) is the rational it denotes, so that \<open>v == 0\<close> is exact. A
  \<open>datetime.date\<close>, which is what the date widget returns, and a \<open>datetime.datetime\<close>
  (of which \<open>pd.Timestamp\<close> is a subclass) are kept apart, each carried by the text
  that \<open>str\<close> prints for it: the code only asks for their class and their text.
\<close>

datatype pyval =
    PNone
  | PStr string
  | PList "string list"
  | PNum rat
  | PDate string
  | PDatetime string

type_synonym record_dict = "string \<rightharpoonup> pyval"

record question =
  qid :: string
  name :: string
  label :: string
  type :: string
  choices :: "string list"
  required :: bool

record project =
  pid :: string
  title :: string
  owner :: string
  created_at :: string
  form :: "question list"
  data :: "record_dict list"

datatype exn =
    IndexError
  | JSONDecodeError
  | FileNotFoundError
  | UnicodeDecodeError
  | PermissionError

definition new_id :: "string \<Rightarrow> int \<Rightarrow> string" where
  \<comment> \<open>the second argument is the clock reading, in milliseconds since the epoch\<close>
  "new_id prefix ms = prefix @ ''_'' @ str_int ms"

subsection \<open>Project store\<close>

text \<open>
  \<open>json.load\<close> is a library function: the project document is described by what
  reading it does, which is to raise or to return the parsed value.
\<close>

datatype json =
    JNull
  | JBool bool
  | JNum int
  | JStr string
  | JArr "json list"
  | JObj "(string \<times> json) list"

datatype file_read = Raises exn | Loads json

datatype projects_file = Absent | Exists file_read

text \<open>\<open>load_projects\<close> of \<open>app.py\<close>: guarded by \<open>try\<close> / \<open>except\<close>.\<close>

fun load_projects :: "projects_file \<Rightarrow> exn + json" where
  "load_projects Absent = Inr (JObj [])"
| "load_projects (Exists (Loads j)) = Inr j"
| "load_projects (Exists (Raises e)) =
     (if e = JSONDecodeError \<or> e = FileNotFoundError then Inr (JObj []) else Inl e)"

text \<open>\<open>load_projects\<close> of the second copy of the application (\<open>part_000\<close>): no guard.\<close>

fun load_projects_part_000 :: "projects_file \<Rightarrow> exn + json" where
  "load_projects_part_000 Absent = Inr (JObj [])"
| "load_projects_part_000 (Exists (Loads j)) = Inr j"
| "load_projects_part_000 (Exists (Raises e)) = Inl e"

subsection \<open>Form designer: deleting a question\<close>

text \<open>
  \<open>list.pop(i)\<close>: a negative index counts from the end, an index out of range raises.
\<close>

definition pop :: "'a list \<Rightarrow> int \<Rightarrow> exn + ('a \<times> 'a list)" where
  "pop xs i =
     (if i < - int (length xs) \<or> int (length xs) \<le> i then Inl IndexError
      else (let k = nat (if i < 0 then i + int (length xs) else i)
            in Inr (xs ! k, take k xs @ drop (Suc k) xs)))"

text \<open>
  The handler of the button "Delete Question"; \<open>del_idx\<close> is the number typed into the
  input, which the widget keeps between 1 and the length of the form. The result is the
  message shown and the project.
\<close>

definition delete_question :: "int \<Rightarrow> project \<Rightarrow> exn + (string \<times> project)" where
  "delete_question del_idx project =
     (case pop (form project) (del_idx - 1) of
        Inl e \<Rightarrow> Inl e
      | Inr (removed, rest) \<Rightarrow>
          Inr (''Deleted question: '' @ label removed, project\<lparr>form := rest\<rparr>))"

subsection \<open>Tables and workbooks\<close>

text \<open>
  A cell of a table that \<open>pandas\<close> hands over: missing (\<open>NaN\<close>), a text, an integer, a
  truth value, or a floating-point number other than \<open>NaN\<close>. A floating-point cell is
  carried by the text that \<open>str\<close> prints for it (\<open>1.0\<close>, \<open>2.5\<close>, \<open>inf\<close>): the code only asks
  for that text and for whether the number is zero. \<open>pandas\<close> infers the type of a column
  from all its cells: a column of the numbers 1, 2 is handed over as integers, but a
  column holding the number 1 (or \<open>TRUE\<close>) and a blank is handed over as the float 1.0 and
  \<open>NaN\<close>.

  A \<open>DataFrame\<close> is its column labels and its rows; a row gives the cell under a label
  (its value under a label that is not a column is never read). A workbook is its sheets
  by name. The uploaded bytes either make the spreadsheet library raise, on opening the
  workbook or on reading a sheet, with the text of the exception, or are read as a
  workbook.
\<close>

datatype cell = NaN | Text string | Number int | Boolean bool | Float string

record dataframe =
  columns :: "string list"
  rows :: "(string \<Rightarrow> cell) list"

type_synonym workbook = "(string \<times> dataframe) list"

datatype upload = Unreadable string | Excel workbook

definition isna :: "cell \<Rightarrow> bool" where
  "isna c = (c = NaN)"

fun py_str :: "cell \<Rightarrow> string" where
  "py_str NaN = ''nan''"
| "py_str (Text s) = s"
| "py_str (Number i) = str_int i"
| "py_str (Boolean b) = (if b then ''True'' else ''False'')"
| "py_str (Float s) = s"

fun truthy :: "cell \<Rightarrow> bool" where
  "truthy NaN = True"
| "truthy (Text s) = (s \<noteq> [])"
| "truthy (Number i) = (i \<noteq> 0)"
| "truthy (Boolean b) = b"
| "truthy (Float s) = (s \<noteq> ''0.0'' \<and> s \<noteq> ''-0.0'')"










subsection \<open>Credential store\<close>

text \<open>
  The credentials are a CSV file with the columns \<open>username\<close> and \<open>password_hash\<close>.
  \<open>pd.read_csv\<close> infers the type of each column from its texts: a stored \<open>123\<close> is handed
  over as the integer 123 when every stored username looks like a number, and a stored
  \<open>NA\<close> as a missing value. The state of the file is therefore the table that
  \<open>pd.read_csv\<close> hands over, a list of rows of two cells, or \<open>None\<close> when the file does
  not exist. What \<open>to_csv\<close> writes is a list of rows of two texts: each cell by its text,
  a missing value as the empty text. The hash function of \<open>hashlib\<close> is a parameter.
\<close>

type_synonym users_frame = "(cell \<times> cell) list"

definition ensure_user_file :: "users_frame option \<Rightarrow> users_frame option" where
  "ensure_user_file user_file = (case user_file of None \<Rightarrow> Some [] | Some df \<Rightarrow> Some df)"

definition read_csv :: "users_frame option \<Rightarrow> users_frame" where
  "read_csv user_file = (case user_file of None \<Rightarrow> [] | Some df \<Rightarrow> df)"

definition csv_text :: "cell \<Rightarrow> string" where
  "csv_text c = (if isna c then [] else py_str c)"

definition to_csv :: "users_frame \<Rightarrow> (string \<times> string) list" where
  "to_csv df = map (\<lambda>(u, h). (csv_text u, csv_text h)) df"

text \<open>
  \<open>username in df["username"].values\<close> compares the text with every cell: only a text
  cell equals it. The result is the value returned and the rows written to the file,
  \<open>None\<close> when nothing is written.
\<close>

definition add_user ::
  "(string \<Rightarrow> string) \<Rightarrow> users_frame option \<Rightarrow> string \<Rightarrow> string
     \<Rightarrow> bool \<times> (string \<times> string) list option" where
  "add_user hash_password user_file username password =
     (let df = read_csv (ensure_user_file user_file)
      in if Text username \<in> set (map fst df) then (False, None)
         else (True, Some (to_csv (df @ [(Text username, Text (hash_password password))]))))"

definition authenticate ::
  "(string \<Rightarrow> string) \<Rightarrow> users_frame option \<Rightarrow> string \<Rightarrow> string \<Rightarrow> bool" where
  "authenticate hash_password user_file username password =
     (case filter (\<lambda>r. fst r = Text username) (read_csv (ensure_user_file user_file)) of
        [] \<Rightarrow> False
      | r # _ \<Rightarrow> snd r = Text (hash_password password))"

subsection \<open>What pandas makes of a sheet of texts\<close>
















subsection \<open>XLSForm export\<close>






subsection \<open>XLSForm import\<close>

definition list_choices :: "dataframe \<Rightarrow> string \<Rightarrow> string list" where
  "list_choices choices_df list_name =
     concat (map (\<lambda>choice_row.
          if ''label'' \<in> set (columns choices_df) \<and> \<not> isna (choice_row ''label'')
          then [py_str (choice_row ''label'')]
          else if ''name'' \<in> set (columns choices_df) \<and> \<not> isna (choice_row ''name'')
          then [py_str (choice_row ''name'')]
          else [])
        (filter (\<lambda>r. r ''list_name'' = Text list_name) (rows choices_df)))"

definition row_choices :: "dataframe option \<Rightarrow> string \<Rightarrow> string \<Rightarrow> string list" where
  "row_choices choices_df q_type q_name =
     (if startswith q_type ''select_one'' \<or> startswith q_type ''select_multiple''
      then (let list_name = (if CHR '' '' \<in> set q_type then after_first_space q_type else q_name)
            in case choices_df of
                 None \<Rightarrow> []
               | Some df \<Rightarrow> if ''list_name'' \<in> set (columns df)
                           then list_choices df list_name else [])
      else [])"

definition normalized_type :: "string \<Rightarrow> string" where
  "normalized_type q_type =
     (if startswith q_type ''select_one'' then ''select_one''
      else if startswith q_type ''select_multiple'' then ''select_multiple''
      else q_type)"

text \<open>
  The body of the loop over the survey rows, for a row that is not skipped; \<open>ms\<close> is the
  clock reading that \<open>new_id\<close> takes.
\<close>

definition import_row :: "string list \<Rightarrow> dataframe option \<Rightarrow> int \<Rightarrow> (string \<Rightarrow> cell) \<Rightarrow> question" where
  "import_row cols choices_df ms row =
     (let q_type = py_str (row ''type'');
          q_name = py_str (row ''name'');
          q_label = py_str (row ''label'');
          q_required = (if ''required'' \<in> set cols \<and> \<not> isna (row ''required'')
                        then row ''required'' else Boolean False)
      in \<lparr>qid = new_id ''q'' ms,
          name = q_name,
          label = q_label,
          type = normalized_type q_type,
          choices = row_choices choices_df q_type q_name,
          required = (truthy q_required \<and>
             lower (py_str q_required) \<in> set [''yes'', ''true'', ''1'', ''required''])\<rparr>)"

definition skipped :: "(string \<Rightarrow> cell) \<Rightarrow> bool" where
  "skipped row = (isna (row ''type'') \<or> isna (row ''name'') \<or> isna (row ''label''))"

text \<open>
  The loop over the survey rows. \<open>clock k\<close> is the reading of the clock at the \<open>k\<close>-th
  call of \<open>new_id\<close>; \<open>n\<close> counts the calls made so far.
\<close>

fun import_rows ::
  "string list \<Rightarrow> dataframe option \<Rightarrow> (nat \<Rightarrow> int) \<Rightarrow> nat \<Rightarrow> (string \<Rightarrow> cell) list \<Rightarrow> question list" where
  "import_rows cols choices_df clock n [] = []"
| "import_rows cols choices_df clock n (row # rest) =
     (if skipped row then import_rows cols choices_df clock n rest
      else import_row cols choices_df (clock n) row
             # import_rows cols choices_df clock (Suc n) rest)"

text \<open>
  The result is the value returned, the messages shown by \<open>st.error\<close>, and the project.
\<close>

definition apostrophe :: string where
  "apostrophe = [CHR 0x27]"

definition import_xlsform :: "upload \<Rightarrow> (nat \<Rightarrow> int) \<Rightarrow> project \<Rightarrow> bool \<times> string list \<times> project" where
  "import_xlsform file_bytes clock project =
     (case file_bytes of
        Unreadable e \<Rightarrow> (False, [''Error importing XLSForm: '' @ e], project)
      | Excel xls \<Rightarrow>
          (case map_of xls ''survey'' of
             None \<Rightarrow> (False, [''XLSForm must contain a 'survey' sheet''], project)
           | Some survey_df \<Rightarrow>
               (case find (\<lambda>col. col \<notin> set (columns survey_df)) [''type'', ''name'', ''label''] of
                  Some col \<Rightarrow>
                    (False,
                     [''XLSForm must contain '' @ apostrophe @ col @ apostrophe
                        @ '' column in survey sheet''],
                     project)
                | None \<Rightarrow>
                    (True, [],
                     project\<lparr>form := form project
                        @ import_rows (columns survey_df) (map_of xls ''choices'') clock 0
                            (rows survey_df)\<rparr>))))"

subsection \<open>Form designer: adding a question\<close>

text \<open>
  \<open>str.splitlines\<close>: the text is cut at every line boundary (\<open>\n\<close>, \<open>\r\<close>, \<open>\r\n\<close>,
  \<open>\v\<close>, \<open>\f\<close> and the separators 28 to 30); a boundary at the very end opens no
  further line. The first argument is the line read so far, reversed.
\<close>

definition is_linebreak :: "char \<Rightarrow> bool" where
  "is_linebreak c = ((of_char c :: nat) \<in> {10, 11, 12, 13, 28, 29, 30})"

fun splitlines_from :: "string \<Rightarrow> string \<Rightarrow> string list" where
  "splitlines_from cur [] = (if cur = [] then [] else [rev cur])"
| "splitlines_from cur [c] = (if is_linebreak c then [rev cur] else [rev (c # cur)])"
| "splitlines_from cur (c # d # s) =
     (if c = CHR 0x0D \<and> d = CHR 0x0A then rev cur # splitlines_from [] s
      else if is_linebreak c then rev cur # splitlines_from [] (d # s)
      else splitlines_from (c # cur) (d # s))"

definition splitlines :: "string \<Rightarrow> string list" where
  "splitlines s = splitlines_from [] s"

text \<open>
  The variable name derived from a label: every character that is not alphanumeric
  becomes an underscore, and letters are lowered.
\<close>

definition label_base :: "string \<Rightarrow> string" where
  "label_base q_label =
     lower (map (\<lambda>ch. if isalnum ch then ch else CHR ''_'') (strip q_label))"

lemma str_nat_not_Nil: "str_nat n \<noteq> []"
  by (subst str_nat.simps) simp

lemma digit_char_inj: "a < 10 \<Longrightarrow> b < 10 \<Longrightarrow> char_of (48 + a) = (char_of (48 + b) :: char) \<Longrightarrow> a = (b::nat)"
  by simp

lemma str_nat_inject: "str_nat n = str_nat m \<Longrightarrow> n = m"
proof (induction n arbitrary: m rule: str_nat.induct)
  case (1 n)
  show ?case
  proof (cases "n < 10")
    case small: True
    show ?thesis
    proof (cases "m < 10")
      case True
      with small "1.prems" show ?thesis
        by (simp add: str_nat.simps [of n] str_nat.simps [of m] digit_char_inj)
    next
      case False
      with small "1.prems" show ?thesis
        by (simp add: str_nat.simps [of n] str_nat.simps [of m] str_nat_not_Nil
            str_nat_not_Nil [THEN not_sym])
    qed
  next
    case big: False
    show ?thesis
    proof (cases "m < 10")
      case True
      with big "1.prems" show ?thesis
        by (simp add: str_nat.simps [of n] str_nat.simps [of m] str_nat_not_Nil
            str_nat_not_Nil [THEN not_sym])
    next
      case False
      with big "1.prems" have "str_nat (n div 10) = str_nat (m div 10)"
        and "char_of (48 + n mod 10) = (char_of (48 + m mod 10) :: char)"
        by (simp_all add: str_nat.simps [of n] str_nat.simps [of m])
      with big "1.IH" have "n div 10 = m div 10" and "n mod 10 = m mod 10"
        by (auto intro: digit_char_inj)
      then show ?thesis
        by (metis div_mult_mod_eq)
    qed
  qed
qed

text \<open>
  The loop that looks for a free name: while the candidate is taken, the next one is the
  base with the next number appended. It ends because the decimal texts of different
  numbers differ, so that the taken names are used up.
\<close>

function free_candidate :: "string list \<Rightarrow> string \<Rightarrow> string \<Rightarrow> nat \<Rightarrow> string" where
  "free_candidate existing_names base candidate suffix =
     (if candidate \<in> set existing_names
      then free_candidate existing_names base (base @ ''_'' @ str_nat suffix) (Suc suffix)
      else candidate)"
  by pat_completeness auto

termination
proof (relation "measure (\<lambda>(existing_names, base, candidate, suffix).
          card {k. suffix \<le> k \<and> base @ ''_'' @ str_nat k \<in> set existing_names}
          + (if candidate \<in> set existing_names then 1 else 0))")
  show "wf (measure (\<lambda>(existing_names, base, candidate, suffix).
          card {k. suffix \<le> k \<and> base @ ''_'' @ str_nat k \<in> set existing_names}
          + (if candidate \<in> set existing_names then 1 else 0)))"
    by simp
next
  fix existing_names :: "string list" and base candidate :: string and suffix :: nat
  assume "candidate \<in> set existing_names"
  let ?P = "\<lambda>k. base @ ''_'' @ str_nat k \<in> set existing_names"
  have "inj (\<lambda>k. base @ ''_'' @ str_nat k)"
    by (auto simp: inj_def dest: str_nat_inject)
  then have "finite ((\<lambda>k. base @ ''_'' @ str_nat k) -` set existing_names)"
    by (intro finite_vimageI) simp_all
  then have fin: "finite {k. Suc suffix \<le> k \<and> ?P k}"
    by (rule rev_finite_subset) auto
  have split: "{k. suffix \<le> k \<and> ?P k} =
      (if ?P suffix then insert suffix {k. Suc suffix \<le> k \<and> ?P k} else {k. Suc suffix \<le> k \<and> ?P k})"
    by (auto simp: Suc_le_eq le_less)
  have "card {k. Suc suffix \<le> k \<and> ?P k} + (if ?P suffix then 1 else 0)
      = card {k. suffix \<le> k \<and> ?P k}"
    using fin by (subst split) simp
  with \<open>candidate \<in> set existing_names\<close>
  show "((existing_names, base, base @ ''_'' @ str_nat suffix, Suc suffix),
         (existing_names, base, candidate, suffix))
        \<in> measure (\<lambda>(existing_names, base, candidate, suffix).
          card {k. suffix \<le> k \<and> base @ ''_'' @ str_nat k \<in> set existing_names}
          + (if candidate \<in> set existing_names then 1 else 0))"
    by simp
qed
declare free_candidate.simps [simp del]

text \<open>
  The handler of "Add Question". \<open>ms\<close> is the clock reading for the new id;
  \<open>choices_text\<close> is the content of the text area, which is shown, and read, only for
  the two select types. The result is the message shown and the project.
\<close>

definition add_question ::
  "int \<Rightarrow> string \<Rightarrow> string \<Rightarrow> bool \<Rightarrow> string \<Rightarrow> string \<Rightarrow> project \<Rightarrow> string \<times> project" where
  "add_question ms q_label q_type q_required choices_text q_name project =
     (if strip q_label = [] then (''Question label is required.'', project)
      else
        (let q_choices = (if q_type \<in> set [''select_one'', ''select_multiple'']
                          then choices_text else []);
             new_name =
               (if strip q_name = []
                then (let base = label_base q_label;
                          existing_names = map name (form project);
                          candidate = (if base \<noteq> [] then base
                                       else ''q'' @ str_nat (length (form project) + 1))
                      in free_candidate existing_names base candidate 1)
                else strip q_name);
             question =
               \<lparr>qid = new_id ''q'' ms,
                name = new_name,
                label = strip q_label,
                type = q_type,
                choices = (if q_choices \<noteq> []
                           then map strip (filter (\<lambda>c. strip c \<noteq> []) (splitlines q_choices))
                           else []),
                required = q_required\<rparr>
         in (''Added question: '' @ strip q_label,
             project\<lparr>form := form project @ [question]\<rparr>)))"

subsection \<open>Collecting a record\<close>

text \<open>
  The entry is filled from the widgets, one per question, keyed by the name of the
  question: a note has no widget and enters \<open>None\<close>, a question of any other type than
  the seven known ones enters nothing.
\<close>

fun collect_entry :: "(string \<Rightarrow> pyval) \<Rightarrow> record_dict \<Rightarrow> question list \<Rightarrow> record_dict" where
  "collect_entry widget entry [] = entry"
| "collect_entry widget entry (q # qs) =
     collect_entry widget
       (if type q \<in> set [''text'', ''integer'', ''decimal'', ''date'', ''select_one'', ''select_multiple'']
        then entry(name q \<mapsto> widget (name q))
        else if type q = ''note'' then entry(name q \<mapsto> PNone)
        else entry)
       qs"

text \<open>\<open>entry.get(k)\<close> and the test \<open>v in (None, "", [], 0)\<close>.\<close>

definition entry_get :: "record_dict \<Rightarrow> string \<Rightarrow> pyval" where
  "entry_get entry k = (case entry k of None \<Rightarrow> PNone | Some v \<Rightarrow> v)"

definition in_empty_values :: "pyval \<Rightarrow> bool" where
  "in_empty_values v = (v = PNone \<or> v = PStr [] \<or> v = PList [] \<or> v = PNum 0)"

definition missing_labels :: "question list \<Rightarrow> record_dict \<Rightarrow> string list" where
  "missing_labels frm entry =
     map label (filter (\<lambda>q. required q \<and> in_empty_values (entry_get entry (name q))) frm)"

text \<open>
  \<open>isinstance(v, (pd.Timestamp, datetime))\<close> holds of a \<open>datetime\<close> and of a
  \<open>Timestamp\<close>; \<open>datetime.date\<close> is the base class and is no instance of either.
\<close>

fun normalize_value :: "pyval \<Rightarrow> pyval" where
  "normalize_value (PDatetime s) = PStr s"
| "normalize_value v = v"

fun join :: "string \<Rightarrow> string list \<Rightarrow> string" where
  "join sep [] = []"
| "join sep [x] = x"
| "join sep (x # y # ys) = x @ sep @ join sep (y # ys)"

text \<open>
  The handler of "Submit record"; \<open>now\<close> is the text of the current UTC time. The
  result is the message shown and the project.
\<close>

definition submit_record :: "string \<Rightarrow> record_dict \<Rightarrow> project \<Rightarrow> string \<times> project" where
  "submit_record now entry project =
     (let missing = missing_labels (form project) entry
      in if missing \<noteq> []
         then (''Please fill required questions: '' @ join '', '' missing, project)
         else (let normalized = (\<lambda>k. map_option normalize_value (entry k));
                   entry_meta = [''_submission_time'' \<mapsto> PStr now] ++ normalized
               in (''Record submitted (simulated).'',
                   project\<lparr>data := data project @ [entry_meta]\<rparr>)))"

subsection \<open>Example projects\<close>

definition census :: project where
  "census =
     \<lparr>pid = ''proj_1'', title = ''Census'', owner = ''ann'',
      created_at = ''2024-01-01T00:00:00'',
      form =
        [\<lparr>qid = ''q_1'', name = ''a'', label = ''A'', type = ''text'',
            choices = [], required = True\<rparr>,
         \<lparr>qid = ''q_2'', name = ''b'', label = ''B'', type = ''select_one'',
            choices = [''M'', ''F''], required = False\<rparr>,
         \<lparr>qid = ''q_3'', name = ''c'', label = ''C'', type = ''date'',
            choices = [], required = False\<rparr>],
      data = [[''_submission_time'' \<mapsto> PStr ''2024-01-02T00:00:00'', ''b'' \<mapsto> PStr ''F'']]\<rparr>"








definition age_row :: "cell \<Rightarrow> string \<Rightarrow> cell" where
  "age_row req col =
     (if col = ''type'' then Text ''integer''
      else if col = ''name'' then Text ''age''
      else if col = ''label'' then Text ''Age''
      else if col = ''required'' then req
      else NaN)"

definition survey_only :: upload where
  "survey_only =
     Excel [(''survey'',
             \<lparr>columns = [''type'', ''name'', ''label'', ''required''],
              rows = [age_row (Text ''YES''), age_row (Number 1), age_row (Boolean True),
                      age_row (Text ''no''), age_row NaN,
                      (age_row (Text ''yes''))(''label'' := NaN)]\<rparr>)]"

definition no_label_column :: upload where
  "no_label_column =
     Excel [(''survey'', \<lparr>columns = [''type'', ''name''], rows = [age_row NaN]\<rparr>)]"

definition date_widgets :: "string \<Rightarrow> pyval" where
  "date_widgets key =
     (if key = ''a'' then PStr ''Alice''
      else if key = ''b'' then PStr ''F''
      else if key = ''c'' then PDate ''2024-03-05''
      else PNone)"

subsection \<open>The required flag, as the specification words it\<close>

text \<open>
  The flag is set exactly when the sheet has a column \<open>required\<close>, the cell of the row is
  not blank and its text, lowered, is one of \<open>yes\<close>, \<open>true\<close>, \<open>1\<close>, \<open>required\<close>.
\<close>

definition required_by_cell :: "string list \<Rightarrow> (string \<Rightarrow> cell) \<Rightarrow> bool" where
  "required_by_cell cols row =
     (''required'' \<in> set cols \<and> row ''required'' \<noteq> NaN \<and>
      lower (py_str (row ''required'')) \<in> set [''yes'', ''true'', ''1'', ''required''])"

subsection \<open>The fields that export and import exchange\<close>






section \<open>Properties\<close>

subsection \<open>Credential store\<close>

lemma add_user_present:
  "Text username \<in> fst ` set (read_csv user_file) \<Longrightarrow>
   add_user hash_password user_file username password = (False, None)"
  by (cases user_file) (auto simp: add_user_def ensure_user_file_def read_csv_def)

lemma add_user_absent:
  "Text username \<notin> fst ` set (read_csv user_file) \<Longrightarrow>
   add_user hash_password user_file username password =
     (True, Some (to_csv (read_csv user_file) @ [(username, hash_password password)]))"
  by (cases user_file)
    (auto simp: add_user_def ensure_user_file_def read_csv_def to_csv_def csv_text_def isna_def)

lemma str_int_123: "str_int 123 = ''123''"
  by code_simp

text \<open>
  Claim C7. For a username that is already in the credential store, \<open>add_user\<close> is to
  return false and leave the table as it is. It does so when the stored username is
  handed over as a text (lemma \<open>add_user_present\<close>). It does not for a stored username
  \<open>123\<close>: the column is handed over as integers, no integer equals the text \<open>123\<close>, and
  the user is registered a second time. Nor for a stored username \<open>NA\<close>: it is handed
  over as a missing value, the user is registered again, and the stored name is written
  back as the empty text.
\<close>

theorem add_user_numeric_username:
  "add_user hash_password (Some [(Number 123, Text ''5e884898da28'')]) ''123'' password =
     (True, Some [(''123'', ''5e884898da28''), (''123'', hash_password password)])
   \<and> add_user hash_password (Some [(NaN, Text ''5e884898da28'')]) ''NA'' password =
     (True, Some [([], ''5e884898da28''), (''NA'', hash_password password)])"
  by (simp add: add_user_def ensure_user_file_def read_csv_def to_csv_def csv_text_def
      isna_def str_int_123)

subsection \<open>Deleting a question\<close>

lemma pop_in_range:
  "0 \<le> i \<Longrightarrow> i < int (length xs) \<Longrightarrow>
   pop xs i = Inr (xs ! nat i, take (nat i) xs @ drop (Suc (nat i)) xs)"
  by (simp add: pop_def Let_def)

text \<open>
  Claim C8. Deleting the question at position \<open>k\<close> (counted from 1, within the form)
  removes exactly that question: the questions before it keep their positions and their
  fields, the questions after it move up by one with their fields, and nothing else of
  the project changes, in particular not the list of records.
\<close>

theorem delete_question_frame:
  assumes "1 \<le> k" and "k \<le> length (form project)"
  shows "\<exists>project'.
           delete_question (int k) project =
             Inr (''Deleted question: '' @ label (form project ! (k - 1)), project')
         \<and> form project' = take (k - 1) (form project) @ drop k (form project)
         \<and> length (form project') + 1 = length (form project)
         \<and> (\<forall>i. i < k - 1 \<longrightarrow> form project' ! i = form project ! i)
         \<and> (\<forall>i. k - 1 \<le> i \<and> i < length (form project') \<longrightarrow>
                form project' ! i = form project ! (i + 1))
         \<and> data project' = data project
         \<and> project' = project\<lparr>form := form project'\<rparr>"
proof -
  let ?f = "form project"
  let ?p' = "project\<lparr>form := take (k - 1) ?f @ drop k ?f\<rparr>"
  from assms have i: "nat (int k - 1) = k - 1" "0 \<le> int k - 1"
    "int k - 1 < int (length ?f)" "Suc (k - 1) = k"
    by auto
  have run: "delete_question (int k) project =
      Inr (''Deleted question: '' @ label (?f ! (k - 1)), ?p')"
    unfolding delete_question_def pop_in_range [OF i(2,3)] i by simp
  have len: "length (form ?p') + 1 = length ?f"
    using assms by simp
  have before: "\<forall>i. i < k - 1 \<longrightarrow> form ?p' ! i = ?f ! i"
    using assms by (simp add: nth_append)
  have after: "\<forall>i. k - 1 \<le> i \<and> i < length (form ?p') \<longrightarrow> form ?p' ! i = ?f ! (i + 1)"
    using assms by (auto simp: nth_append min_def)
  from run len before after show ?thesis
    by (intro exI [of _ ?p']) simp
qed

theorem delete_question_frame_witness:
  "\<exists>project'.
     delete_question 2 census = Inr (''Deleted question: B'', project')
   \<and> form project' = [form census ! 0, form census ! 2]
   \<and> data project' = data census"
proof -
  have "1 \<le> (2::nat)" and "2 \<le> length (form census)"
    by (simp_all add: census_def)
  from delete_question_frame [OF this] obtain project' where
    "delete_question (int 2) census =
       Inr (''Deleted question: '' @ label (form census ! (2 - 1)), project')"
    and "form project' = take (2 - 1) (form census) @ drop 2 (form census)"
    and "data project' = data census"
    by blast
  then show ?thesis
    by (intro exI [of _ project']) (simp add: census_def)
qed

subsection \<open>Importing an XLSForm\<close>

lemma lower_Nil_iff: "lower s = [] \<longleftrightarrow> s = []"
  by (simp add: lower_def)

lemma lower_of_zero: "lower (str_int 0) = ''0''"
  by code_simp

lemma lower_of_False: "lower ''False'' = ''false''"
  by code_simp

lemma lower_of_float_zero:
  "lower ''0.0'' = ''0.0''" "lower ''-0.0'' = ''-0.0''"
  by code_simp+

lemma yes_is_truthy:
  assumes "lower (py_str c) \<in> set [''yes'', ''true'', ''1'', ''required'']" and "c \<noteq> NaN"
  shows "truthy c"
proof (cases c)
  case NaN
  with assms show ?thesis by simp
next
  case (Text s)
  with assms have "lower s \<noteq> []" by auto
  with Text show ?thesis by (simp add: lower_Nil_iff)
next
  case (Number i)
  have "i \<noteq> 0"
  proof
    assume "i = 0"
    with assms Number show False by (simp add: lower_of_zero)
  qed
  with Number show ?thesis by simp
next
  case (Boolean b)
  with assms show ?thesis by (cases b) (simp_all add: lower_of_False)
next
  case (Float s)
  have "s \<noteq> ''0.0''" and "s \<noteq> ''-0.0''"
    using assms Float lower_of_float_zero by auto
  with Float show ?thesis by simp
qed

lemma import_row_required:
  "required (import_row cols choices_df ms row) = required_by_cell cols row"
proof (cases "''required'' \<in> set cols \<and> row ''required'' \<noteq> NaN")
  case True
  then show ?thesis
    unfolding import_row_def required_by_cell_def isna_def Let_def
    using yes_is_truthy [of "row ''required''"] by auto
next
  case False
  then show ?thesis
    unfolding import_row_def required_by_cell_def isna_def Let_def
    by (auto simp: lower_of_False)
qed

lemma import_rows_required:
  "map required (import_rows cols choices_df clock n rws) =
   map (required_by_cell cols) (filter (\<lambda>row. \<not> skipped row) rws)"
  by (induction rws arbitrary: n) (simp_all add: import_row_required)

lemma import_rows_required_example:
  "map required
     (import_rows [''type'', ''name'', ''label'', ''required''] None (\<lambda>k. int k) 0
        [age_row (Text ''YES''), age_row (Number 1), age_row (Boolean True),
         age_row (Text ''no''), age_row NaN, (age_row (Text ''yes''))(''label'' := NaN),
         age_row (Text '' yes'')])
   = [True, True, True, False, False, False]"
proof -
  have "map (required_by_cell [''type'', ''name'', ''label'', ''required''])
      (filter (\<lambda>row. \<not> skipped row)
        [age_row (Text ''YES''), age_row (Number 1), age_row (Boolean True),
         age_row (Text ''no''), age_row NaN, (age_row (Text ''yes''))(''label'' := NaN),
         age_row (Text '' yes'')])
    = [True, True, True, False, False, False]"
    by code_simp
  then show ?thesis
    by (simp only: import_rows_required)
qed

text \<open>
  Claim C5. The required flag of an imported question is to be true exactly when the
  cell under \<open>required\<close> is, without regard to case, \<open>yes\<close>, \<open>true\<close>, \<open>1\<close> or \<open>required\<close>.
  The code compares the text that \<open>str\<close> prints for the value handed over (lemma
  \<open>import_rows_required\<close>), which is as claimed for a text, an integer and a truth
  value. But a sheet whose column holds the number 1 (or \<open>TRUE\<close>) in one row and a blank
  in another is handed over as the float 1.0 and \<open>NaN\<close>; the text of the float is \<open>1.0\<close>,
  and the question of the row that says 1 is not required.
\<close>

theorem required_float_one:
  "map required
     (import_rows [''type'', ''name'', ''label'', ''required''] None clock 0
        [age_row (Float ''1.0''), age_row NaN])
   = [False, False]"
proof -
  have "map (required_by_cell [''type'', ''name'', ''label'', ''required''])
      (filter (\<lambda>row. \<not> skipped row) [age_row (Float ''1.0''), age_row NaN])
    = [False, False]"
    by code_simp
  then show ?thesis
    by (simp only: import_rows_required)
qed

lemma find_SomeD: "find P xs = Some x \<Longrightarrow> x \<in> set xs \<and> P x"
  by (induction xs) (auto split: if_splits)

lemma import_xlsform_appends:
  "\<exists>ok msgs new.
     import_xlsform file_bytes clock project = (ok, msgs, project\<lparr>form := form project @ new\<rparr>)"
proof -
  have same: "project = project\<lparr>form := form project @ []\<rparr>"
    by simp
  show ?thesis
  proof (cases "fst (import_xlsform file_bytes clock project)")
    case True
    then show ?thesis
      unfolding import_xlsform_def
      by (auto split: upload.splits option.splits simp del: find.simps)
  next
    case False
    then have "import_xlsform file_bytes clock project =
        (False, fst (snd (import_xlsform file_bytes clock project)), project)"
      unfolding import_xlsform_def
      by (auto split: upload.splits option.splits simp del: find.simps)
    with same show ?thesis by metis
  qed
qed

text \<open>
  Claim C10. \<open>import_xlsform\<close> never touches the records of the project. Whatever it
  returns, the project it leaves is the given one with new questions appended to the
  form (none when it fails): the questions that were there keep their positions and
  fields, and id, title, owner and creation time are unchanged.
\<close>

theorem import_xlsform_frame:
  "\<exists>ok msgs project' new.
     import_xlsform file_bytes clock project = (ok, msgs, project')
   \<and> project' = project\<lparr>form := form project @ new\<rparr>
   \<and> data project' = data project
   \<and> pid project' = pid project \<and> title project' = title project
   \<and> owner project' = owner project \<and> created_at project' = created_at project
   \<and> take (length (form project)) (form project') = form project"
proof -
  from import_xlsform_appends obtain ok msgs new where
    "import_xlsform file_bytes clock project = (ok, msgs, project\<lparr>form := form project @ new\<rparr>)"
    by blast
  then show ?thesis
    by (intro exI [of _ ok] exI [of _ msgs] exI [of _ "project\<lparr>form := form project @ new\<rparr>"]
        exI [of _ new]) simp
qed

theorem import_xlsform_frame_witness:
  "\<exists>ok msgs project'.
     import_xlsform survey_only (\<lambda>k. int k) census = (ok, msgs, project')
   \<and> data project' = data census
   \<and> take 3 (form project') = form census"
proof -
  from import_xlsform_frame [of survey_only "\<lambda>k. int k" census]
  obtain ok msgs project' where
    "import_xlsform survey_only (\<lambda>k. int k) census = (ok, msgs, project')"
    and "data project' = data census"
    and "take (length (form census)) (form project') = form census"
    by blast
  moreover have "length (form census) = 3"
    by (simp add: census_def)
  ultimately show ?thesis
    by (intro exI [of _ ok] exI [of _ msgs] exI [of _ project']) simp
qed

text \<open>
  Claim C3. The import is atomic on failure. An upload that cannot be read as a workbook,
  a workbook without a sheet \<open>survey\<close>, and a survey sheet that lacks one of the columns
  \<open>type\<close>, \<open>name\<close>, \<open>label\<close> each make \<open>import_xlsform\<close> return false with one message
  that names the cause, and leave the project as it was. Whenever it returns false the
  project is unchanged.
\<close>

theorem import_xlsform_atomic:
  "(file_bytes = Unreadable e \<longrightarrow>
      import_xlsform file_bytes clock project =
        (False, [''Error importing XLSForm: '' @ e], project))
   \<and> (file_bytes = Excel xls \<and> ''survey'' \<notin> fst ` set xls \<longrightarrow>
      import_xlsform file_bytes clock project =
        (False, [''XLSForm must contain a 'survey' sheet''], project))
   \<and> (file_bytes = Excel xls \<and> map_of xls ''survey'' = Some survey_df
        \<and> \<not> set [''type'', ''name'', ''label''] \<subseteq> set (columns survey_df) \<longrightarrow>
      (\<exists>col. col \<in> set [''type'', ''name'', ''label''] \<and> col \<notin> set (columns survey_df)
         \<and> import_xlsform file_bytes clock project =
             (False,
              [''XLSForm must contain '' @ apostrophe @ col @ apostrophe
                 @ '' column in survey sheet''],
              project)))
   \<and> (\<not> fst (import_xlsform file_bytes clock project) \<longrightarrow>
        snd (snd (import_xlsform file_bytes clock project)) = project)"
proof (intro conjI impI)
  assume "file_bytes = Unreadable e"
  then show "import_xlsform file_bytes clock project =
        (False, [''Error importing XLSForm: '' @ e], project)"
    by (simp add: import_xlsform_def)
next
  assume "file_bytes = Excel xls \<and> ''survey'' \<notin> fst ` set xls"
  then have "file_bytes = Excel xls" and "map_of xls ''survey'' = None"
    by (simp_all add: map_of_eq_None_iff)
  then show "import_xlsform file_bytes clock project =
        (False, [''XLSForm must contain a 'survey' sheet''], project)"
    by (simp add: import_xlsform_def)
next
  assume a: "file_bytes = Excel xls \<and> map_of xls ''survey'' = Some survey_df
        \<and> \<not> set [''type'', ''name'', ''label''] \<subseteq> set (columns survey_df)"
  then obtain col where
    col: "find (\<lambda>col. col \<notin> set (columns survey_df)) [''type'', ''name'', ''label''] = Some col"
    by (cases "find (\<lambda>col. col \<notin> set (columns survey_df)) [''type'', ''name'', ''label'']")
      (auto simp: find_None_iff simp del: find.simps)
  then have "col \<in> set [''type'', ''name'', ''label'']" and "col \<notin> set (columns survey_df)"
    by (auto dest: find_SomeD simp del: find.simps)
  moreover from a col have "import_xlsform file_bytes clock project =
       (False, [''XLSForm must contain '' @ apostrophe @ col @ apostrophe
                 @ '' column in survey sheet''], project)"
    unfolding import_xlsform_def by (simp del: find.simps)
  ultimately show "\<exists>col. col \<in> set [''type'', ''name'', ''label''] \<and> col \<notin> set (columns survey_df)
         \<and> import_xlsform file_bytes clock project =
             (False,
              [''XLSForm must contain '' @ apostrophe @ col @ apostrophe
                 @ '' column in survey sheet''],
              project)"
    by blast
next
  assume "\<not> fst (import_xlsform file_bytes clock project)"
  then show "snd (snd (import_xlsform file_bytes clock project)) = project"
    unfolding import_xlsform_def
    by (auto split: upload.splits option.splits simp del: find.simps)
qed

theorem import_xlsform_atomic_witness:
  "import_xlsform (Unreadable ''File is not a zip file'') (\<lambda>k. int k) census =
     (False, [''Error importing XLSForm: File is not a zip file''], census)
   \<and> import_xlsform (Excel []) (\<lambda>k. int k) census =
     (False, [''XLSForm must contain a 'survey' sheet''], census)
   \<and> snd (snd (import_xlsform no_label_column (\<lambda>k. int k) census)) = census"
proof -
  note inst = import_xlsform_atomic [where clock = "\<lambda>k. int k" and project = census]
  have "import_xlsform (Unreadable ''File is not a zip file'') (\<lambda>k. int k) census =
     (False, [''Error importing XLSForm: '' @ ''File is not a zip file''], census)"
    using inst [where file_bytes = "Unreadable ''File is not a zip file''"
        and e = "''File is not a zip file''"]
    by simp
  moreover have "import_xlsform (Excel []) (\<lambda>k. int k) census =
     (False, [''XLSForm must contain a 'survey' sheet''], census)"
    using inst [where file_bytes = "Excel []" and xls = "[]"]
    by simp
  moreover have "\<not> fst (import_xlsform no_label_column (\<lambda>k. int k) census)"
    by (simp add: import_xlsform_def no_label_column_def)
  then have "snd (snd (import_xlsform no_label_column (\<lambda>k. int k) census)) = census"
    using inst [where file_bytes = no_label_column]
    by simp
  ultimately show ?thesis
    by simp
qed

subsection \<open>Project store\<close>

text \<open>
  Claim C6. \<open>load_projects\<close> is to return the empty mapping when the project document
  is absent or cannot be parsed, and never to raise. The copy of the application in
  \<open>part_000\<close> reads the document without a guard: on a document that is not JSON it
  raises, where \<open>app.py\<close> returns the empty mapping. The guard of \<open>app.py\<close> itself
  lets a decoding error of the bytes through.
\<close>

theorem load_projects_part_000_unguarded:
  "load_projects_part_000 (Exists (Raises JSONDecodeError)) = Inl JSONDecodeError
   \<and> load_projects (Exists (Raises JSONDecodeError)) = Inr (JObj [])
   \<and> load_projects (Exists (Raises UnicodeDecodeError)) = Inl UnicodeDecodeError"
  by simp

subsection \<open>Submitting a record\<close>

lemma missing_labels_iff:
  "missing_labels frm entry \<noteq> [] \<longleftrightarrow>
   (\<exists>q\<in>set frm. required q \<and> in_empty_values (entry_get entry (name q)))"
  by (auto simp: missing_labels_def filter_empty_conv)

lemma submit_record_rejected:
  "missing_labels (form project) entry \<noteq> [] \<Longrightarrow>
   submit_record now entry project =
     (''Please fill required questions: '' @ join '', '' (missing_labels (form project) entry),
      project)"
  by (simp add: submit_record_def)

lemma submit_record_accepted:
  assumes "missing_labels (form project) entry = []"
  shows "\<exists>r. submit_record now entry project =
           (''Record submitted (simulated).'', project\<lparr>data := data project @ [r]\<rparr>)
         \<and> dom r = insert ''_submission_time'' (dom entry)
         \<and> (''_submission_time'' \<notin> dom entry \<longrightarrow> r ''_submission_time'' = Some (PStr now))
         \<and> (\<forall>k v. entry k = Some v \<longrightarrow> r k = Some (normalize_value v))"
  using assms
  by (auto simp: submit_record_def Let_def map_add_def dom_def split: option.splits)

text \<open>
  Claim C4. A submission is rejected exactly when a required question has an empty value,
  and an accepted one is appended with its time stamp, with date values turned into
  text. The last part fails on the value the date widget returns: a \<open>datetime.date\<close> is
  no instance of the two classes the handler tests for, so the record keeps the date
  object itself.
\<close>

theorem submit_record_keeps_date:
  "last (data (snd (submit_record ''2024-03-05T10:00:00''
       (collect_entry date_widgets Map.empty (form census)) census))) ''c''
   = Some (PDate ''2024-03-05'')"
  by (simp add: submit_record_def census_def date_widgets_def missing_labels_def
      in_empty_values_def entry_get_def map_add_def)

subsection \<open>Names of added questions\<close>

lemma free_candidate_free:
  "free_candidate existing_names base candidate suffix \<notin> set existing_names"
  by (induction existing_names base candidate suffix rule: free_candidate.induct)
    (subst free_candidate.simps, simp)

lemma free_candidate_shape:
  "free_candidate existing_names base candidate suffix = candidate
   \<or> (\<exists>k\<ge>suffix. free_candidate existing_names base candidate suffix = base @ ''_'' @ str_nat k)"
proof (induction existing_names base candidate suffix rule: free_candidate.induct)
  case (1 existing_names base candidate suffix)
  show ?case
  proof (cases "candidate \<in> set existing_names")
    case True
    with "1.IH" have "free_candidate existing_names base (base @ ''_'' @ str_nat suffix) (Suc suffix)
        = base @ ''_'' @ str_nat suffix
      \<or> (\<exists>k\<ge>Suc suffix. free_candidate existing_names base (base @ ''_'' @ str_nat suffix) (Suc suffix)
           = base @ ''_'' @ str_nat k)"
      by simp
    then have "\<exists>k\<ge>suffix. free_candidate existing_names base (base @ ''_'' @ str_nat suffix) (Suc suffix)
           = base @ ''_'' @ str_nat k"
      using Suc_leD by blast
    with True show ?thesis
      by (subst (1 2) free_candidate.simps) simp
  next
    case False
    then show ?thesis
      by (subst free_candidate.simps) simp
  qed
qed

lemma label_base_not_Nil: "strip q_label \<noteq> [] \<Longrightarrow> label_base q_label \<noteq> []"
  by (simp add: label_base_def lower_def)

text \<open>
  Claim C2, as amended. When no variable name is typed, the handler derives one from the
  label and appends \<open>_1\<close>, \<open>_2\<close>, ... until it differs from every name in the form:
  the new name is the base or the base with a number, it is not among the existing
  names, and a form with pairwise distinct names keeps them distinct.
\<close>

theorem add_question_derived_name:
  assumes "strip q_name = []" and "strip q_label \<noteq> []"
  shows "\<exists>question.
           snd (add_question ms q_label q_type q_required choices_text q_name project)
             = project\<lparr>form := form project @ [question]\<rparr>
         \<and> name question \<notin> set (map name (form project))
         \<and> (name question = label_base q_label
              \<or> (\<exists>k\<ge>1. name question = label_base q_label @ ''_'' @ str_nat k))
         \<and> (distinct (map name (form project)) \<longrightarrow>
              distinct (map name (form project @ [question])))"
proof -
  let ?existing = "map name (form project)"
  let ?base = "label_base q_label"
  let ?new = "free_candidate ?existing ?base ?base 1"
  let ?q = "\<lparr>qid = new_id ''q'' ms, name = ?new, label = strip q_label, type = q_type,
      choices = (if (if q_type \<in> set [''select_one'', ''select_multiple''] then choices_text else []) \<noteq> []
                 then map strip (filter (\<lambda>c. strip c \<noteq> []) (splitlines
                    (if q_type \<in> set [''select_one'', ''select_multiple''] then choices_text else [])))
                 else []),
      required = q_required\<rparr>"
  from assms have run: "snd (add_question ms q_label q_type q_required choices_text q_name project)
      = project\<lparr>form := form project @ [?q]\<rparr>"
    by (simp add: add_question_def Let_def label_base_not_Nil)
  have free: "name ?q \<notin> set ?existing"
    using free_candidate_free [of ?existing ?base ?base 1] by simp
  have shape: "name ?q = ?base \<or> (\<exists>k\<ge>1. name ?q = ?base @ ''_'' @ str_nat k)"
    using free_candidate_shape [of ?existing ?base ?base 1] by simp
  from free have "distinct ?existing \<longrightarrow> distinct (map name (form project @ [?q]))"
    by simp
  with run free shape show ?thesis
    by (intro exI [of _ ?q]) blast
qed

theorem add_question_derived_name_witness:
  "\<exists>question.
     snd (add_question 5 '' A '' ''text'' False [] ''  '' census)
       = census\<lparr>form := form census @ [question]\<rparr>
   \<and> name question \<notin> set (map name (form census))
   \<and> distinct (map name (form census @ [question]))"
proof -
  have "strip ''  '' = []" and "strip '' A '' \<noteq> []"
    by code_simp+
  from add_question_derived_name [OF this, of 5 "''text''" False "[]" census]
  obtain question where
    "snd (add_question 5 '' A '' ''text'' False [] ''  '' census)
       = census\<lparr>form := form census @ [question]\<rparr>"
    and "name question \<notin> set (map name (form census))"
    and "distinct (map name (form census)) \<longrightarrow> distinct (map name (form census @ [question]))"
    by blast
  moreover have "distinct (map name (form census))"
    by (simp add: census_def)
  ultimately show ?thesis
    by (intro exI [of _ question]) simp
qed

text \<open>
  Claim C2, as stated, fails: a name that is typed in is taken as it is, and imported
  names are appended as they are read. Typing the name of an existing question, and
  importing rows that share a name, both leave a form with a repeated name.
\<close>

theorem add_question_duplicate_name:
  "distinct (map name (form census))
   \<and> \<not> distinct (map name (form (snd (add_question 5 ''Again'' ''text'' False [] ''a'' census))))
   \<and> \<not> distinct (map name (form (snd (snd (import_xlsform survey_only (\<lambda>k. int k) census)))))"
  by code_simp

subsection \<open>Export followed by import\<close>

































lemma import_row_nonselect:
  assumes "\<not> startswith (py_str (row ''type'')) ''select_one''"
    and "\<not> startswith (py_str (row ''type'')) ''select_multiple''"
  shows "choices (import_row cols choices_df ms row) = []"
    and "type (import_row cols choices_df ms row) = py_str (row ''type'')"
  using assms by (simp_all add: import_row_def row_choices_def normalized_type_def Let_def)



end
